theory Spec2Isabelle
  imports Main "HOL-Library.Sublist"
begin

section \<open>The file system under the package directory\<close>

text \<open>
  The installer (\<^verbatim>\<open>run\<close>, \<^verbatim>\<open>downloadAndExtract\<close>, \<^verbatim>\<open>setupIndependentRust\<close>)
  builds every path with \<^verbatim>\<open>path.join(__dirname, ...)\<close>. A path is the list of its
  components below \<^verbatim>\<open>__dirname\<close>; \<open>[]\<close> is \<^verbatim>\<open>__dirname\<close> itself.

  The file system is an association list from paths to nodes, read through \<open>lookup\<close>
  (the first entry of a path is the node at that path; \<^verbatim>\<open>__dirname\<close>, which holds the
  script, is always a directory). A regular file carries its permission bits and its
  bytes. Symbolic links and the permission bits of directories are not modelled.
\<close>

type_synonym path = "string list"

datatype node = File nat string | Dir

type_synonym filesystem = "(path \<times> node) list"

datatype errno =
  ENOENT | EEXIST | ENOTDIR | EISDIR | ENOSPC
  | ERR_FS_EISDIR | ERR_FS_CP_EINVAL | ERR_FS_CP_DIR_TO_NON_DIR | ERR_FS_CP_NON_DIR_TO_DIR

datatype error =
  FsError errno path
  | InvalidURL string
  | FetchRejected string
  | HttpError nat string
  | TarExtractionFailed string

definition lookup :: "filesystem \<Rightarrow> path \<Rightarrow> node option" where
  "lookup fs p = (if p = [] then Some Dir else map_of fs p)"

fun is_file :: "node option \<Rightarrow> bool" where
  "is_file (Some (File m c)) = True"
| "is_file _ = False"

fun is_dir :: "node \<Rightarrow> bool" where
  "is_dir Dir = True"
| "is_dir (File m c) = False"

definition existsSync :: "filesystem \<Rightarrow> path \<Rightarrow> bool" where
  "existsSync fs p = (lookup fs p \<noteq> None)"

text \<open>\<^verbatim>\<open>path.join\<close>: empty segments are dropped. The segments the program joins hold no
  separator and are never \<^verbatim>\<open>.\<close> or \<^verbatim>\<open>..\<close>.\<close>

definition path_join :: "path \<Rightarrow> string list \<Rightarrow> path" where
  "path_join p segs = p @ filter (\<lambda>s. s \<noteq> []) segs"

text \<open>\<^verbatim>\<open>rmSync(p, { recursive: true, force: true })\<close>: the node and everything below it
  go; a missing path is no error.\<close>

definition rmSync :: "path \<Rightarrow> filesystem \<Rightarrow> filesystem" where
  "rmSync p fs = filter (\<lambda>(q, n). \<not> prefix p q) fs"

text \<open>\<^verbatim>\<open>rm(p)\<close> of \<^verbatim>\<open>node:fs/promises\<close>, with no option: a missing path and a directory
  are errors.\<close>

definition rm :: "path \<Rightarrow> filesystem \<Rightarrow> error + filesystem" where
  "rm p fs =
     (case lookup fs p of
        None \<Rightarrow> Inl (FsError ENOENT p)
      | Some Dir \<Rightarrow> Inl (FsError ERR_FS_EISDIR p)
      | Some (File m c) \<Rightarrow> Inr (filter (\<lambda>(q, n). q \<noteq> p) fs))"

text \<open>\<^verbatim>\<open>mkdirSync(p, { recursive: true })\<close>: every missing directory on the way to \<open>p\<close>
  is created; a regular file on the way is an error.\<close>

definition mkdirSync_recursive :: "path \<Rightarrow> filesystem \<Rightarrow> error + filesystem" where
  "mkdirSync_recursive p fs =
     (if list_ex (\<lambda>q. is_file (lookup fs q)) (prefixes p)
      then Inl (FsError (if is_file (lookup fs p) then EEXIST else ENOTDIR) p)
      else Inr (map (\<lambda>q. (q, Dir)) (filter (\<lambda>q. lookup fs q = None) (prefixes p)) @ fs))"

text \<open>\<^verbatim>\<open>mkdirSync(p)\<close>: the path must be free and its parent a directory.\<close>

definition mkdirSync :: "path \<Rightarrow> filesystem \<Rightarrow> error + filesystem" where
  "mkdirSync p fs =
     (if existsSync fs p then Inl (FsError EEXIST p)
      else if lookup fs (butlast p) \<noteq> Some Dir then Inl (FsError ENOENT p)
      else Inr ((p, Dir) # fs))"

text \<open>
  \<^verbatim>\<open>cpSync(src, dest, { recursive: true })\<close>. Every node at or below \<open>src\<close> is written
  at the corresponding path at or below \<open>dest\<close>, a file with the permission bits and the
  bytes of its source; what \<open>dest\<close> holds beside them stays. The missing parents of
  \<open>dest\<close> are created. It is an error to copy a directory over a file or a file over a
  directory, at \<open>dest\<close> or anywhere below it, and to copy a tree into itself. A failed
  call may leave part of the tree copied; the model returns the error only.
\<close>

definition cp_entries :: "path \<Rightarrow> path \<Rightarrow> filesystem \<Rightarrow> filesystem" where
  "cp_entries src dest fs =
     map (\<lambda>(q, n). (dest @ drop (length src) q, n))
       (filter (\<lambda>(q, n). prefix src q \<and> lookup fs q = Some n) fs)"

definition cp_conflicts :: "path \<Rightarrow> path \<Rightarrow> filesystem \<Rightarrow> filesystem" where
  "cp_conflicts src dest fs =
     filter (\<lambda>(q, n). case lookup fs q of None \<Rightarrow> False | Some n' \<Rightarrow> is_dir n \<noteq> is_dir n')
       (cp_entries src dest fs)"

definition cpSync :: "path \<Rightarrow> path \<Rightarrow> filesystem \<Rightarrow> error + filesystem" where
  "cpSync src dest fs =
     (case lookup fs src of
        None \<Rightarrow> Inl (FsError ENOENT src)
      | Some n \<Rightarrow>
          if prefix src dest then Inl (FsError ERR_FS_CP_EINVAL dest)
          else
            (case cp_conflicts src dest fs of
               (q, n') # _ \<Rightarrow>
                 Inl (FsError (if is_dir n' then ERR_FS_CP_DIR_TO_NON_DIR
                               else ERR_FS_CP_NON_DIR_TO_DIR) q)
             | [] \<Rightarrow>
                 (case mkdirSync_recursive (butlast dest) fs of
                    Inl e \<Rightarrow> Inl e
                  | Inr fs' \<Rightarrow> Inr (cp_entries src dest fs @ fs'))))"

text \<open>\<^verbatim>\<open>chmodSync(p, mode)\<close>.\<close>

definition chmodSync :: "path \<Rightarrow> nat \<Rightarrow> filesystem \<Rightarrow> error + filesystem" where
  "chmodSync p mode fs =
     (case lookup fs p of
        None \<Rightarrow> Inl (FsError ENOENT p)
      | Some Dir \<Rightarrow> Inr fs
      | Some (File m c) \<Rightarrow> Inr ((p, File mode c) # fs))"

text \<open>The names directly below a directory.\<close>

definition readdir :: "filesystem \<Rightarrow> path \<Rightarrow> string list" where
  "readdir fs p = remdups (map (\<lambda>(q, n). last q) (filter (\<lambda>(q, n). q \<noteq> [] \<and> butlast q = p) fs))"

text \<open>A well-formed file system: every node lies in a directory.\<close>

definition wf_fs :: "filesystem \<Rightarrow> bool" where
  "wf_fs fs = list_all (\<lambda>(q, n). q = [] \<or> lookup fs (butlast q) = Some Dir) fs"

section \<open>The process: console, failures, sequencing\<close>

text \<open>One constructor for each line the program prints (\<^verbatim>\<open>console.log\<close>,
  \<^verbatim>\<open>console.warn\<close>, \<^verbatim>\<open>console.error\<close>, \<^verbatim>\<open>process.stdout.write\<close>), with the
  values the line is built from; \<open>Uncaught\<close> is the report the runtime prints for an
  exception nobody handles.\<close>

datatype event =
  Log_CreatingToolchain path
  | Log_Assembling string
  | Log_CopyingBinaries
  | Warn_SourceNotFound path
  | Log_CopyingAndroid
  | Log_Assembled
  | Log_Fetching string
  | Log_Downloading string
  | Out_Percent nat nat
  | Out_Received nat
  | Out_DownloadComplete
  | Log_Extracting string
  | Err_FailedToDownload string error
  | Err_UnsupportedPlatform string
  | Log_DownloadingAndroid
  | Log_Success path
  | Err_InstallationFailed error
  | Uncaught error

record world =
  files :: filesystem
  console :: "event list"

text \<open>How a function fails: \<open>Thrown\<close> is an exception (of an \<^verbatim>\<open>async\<close> function: its
  promise is rejected) that a caller can catch; \<open>Crashed\<close> is an error no caller can
  catch (an \<^verbatim>\<open>error\<close> event without listener, a rejection inside an event callback):
  the runtime ends the process with exit status 1.\<close>

datatype failure = Thrown error | Crashed error

type_synonym action = "world \<Rightarrow> failure option \<times> world"

definition emit :: "event \<Rightarrow> action" where
  "emit ev w = (None, w\<lparr>console := console w @ [ev]\<rparr>)"

definition skip :: action where
  "skip w = (None, w)"

definition fs_op :: "(filesystem \<Rightarrow> error + filesystem) \<Rightarrow> action" where
  "fs_op f w =
     (case f (files w) of
        Inl err \<Rightarrow> (Some (Thrown err), w)
      | Inr fs' \<Rightarrow> (None, w\<lparr>files := fs'\<rparr>))"

text \<open>\<^verbatim>\<open>if (existsSync(p)) rmSync(p, { recursive: true, force: true })\<close>\<close>

definition rm_if_exists :: "path \<Rightarrow> action" where
  "rm_if_exists p w =
     (if existsSync (files w) p then (None, w\<lparr>files := rmSync p (files w)\<rparr>) else (None, w))"

text \<open>Statements in sequence: the first failure ends the sequence.\<close>

fun steps :: "action list \<Rightarrow> action" where
  "steps [] w = (None, w)"
| "steps (a # as) w =
     (case a w of
        (None, w') \<Rightarrow> steps as w'
      | (Some f, w') \<Rightarrow> (Some f, w'))"

section \<open>The environment\<close>

text \<open>
  What the program reads from outside the repository:
  \<^item> \<^verbatim>\<open>process.platform\<close> and \<^verbatim>\<open>process.arch\<close>;
  \<^item> \<open>archive_name url\<close>, the value of \<^verbatim>\<open>path.basename(new URL(url).pathname)\<close>, and
    \<open>None\<close> where the \<^verbatim>\<open>URL\<close> constructor throws;
  \<^item> \<open>fetch url\<close>, the answer of the network: the request is rejected, or a response
    arrives with its status, its \<^verbatim>\<open>content-length\<close> header (\<open>None\<close> when absent or
    not a number), the chunks its body delivers, and the error that ends the body
    early, if any;
  \<^item> \<open>tar archive dir\<close>, the effect and the exit status of
    \<^verbatim>\<open>tar -xf archive --strip-components=1 -C dir\<close> (status \<open>None\<close>: the process did
    not exit by itself);
  \<^item> \<open>disk_limit\<close>, the number of bytes a write stream can store before the disk is
    full (\<open>None\<close>: no limit);
  \<^item> \<open>late_open\<close>, for a body that ends in an error: \<open>None\<close> when the write stream
    has opened its file by then, and \<open>Some k\<close> when it opens the file only afterwards
    and still stores \<open>k\<close> of the bytes handed to it (\<^verbatim>\<open>createWriteStream\<close> opens the
    file in the background).
\<close>

record response =
  ok :: bool
  status :: nat
  statusText :: string
  content_length :: "nat option"
  chunks :: "string list"
  stream_error :: "string option"

datatype fetch_result = Rejected string | Responded response

record env =
  platform :: string
  arch :: string
  archive_name :: "string \<Rightarrow> string option"
  fetch :: "string \<Rightarrow> fetch_result"
  tar :: "path \<Rightarrow> path \<Rightarrow> filesystem \<Rightarrow> nat option \<times> filesystem"
  disk_limit :: "nat option"
  late_open :: "nat option"

section \<open>The program\<close>

definition BINARY_NAME :: string where
  "BINARY_NAME = ''rustc''"

definition PLATFORMS :: "(string \<times> string) list" where
  "PLATFORMS =
     [(''darwin-arm64'',
         ''https://static.rust-lang.org/dist/rust-1.92.0-aarch64-apple-darwin.tar.xz''),
      (''darwin-x64'',
         ''https://static.rust-lang.org/dist/rust-1.92.0-x86_64-apple-darwin.tar.xz''),
      (''linux-x64'',
         ''https://static.rust-lang.org/dist/rust-1.92.0-x86_64-unknown-linux-gnu.tar.xz'')]"

definition ANDROID_STDS :: "string list" where
  "ANDROID_STDS =
     [''https://static.rust-lang.org/dist/rust-std-1.92.0-i686-linux-android.tar.gz'',
      ''https://static.rust-lang.org/dist/rust-std-1.92.0-x86_64-linux-android.tar.gz'',
      ''https://static.rust-lang.org/dist/rust-std-1.92.0-armv7-linux-androideabi.tar.xz'',
      ''https://static.rust-lang.org/dist/rust-std-1.92.0-aarch64-linux-android.tar.xz'']"

text \<open>\<^verbatim>\<open>`${process.platform}-${process.arch}`\<close>\<close>

definition platformKey :: "env \<Rightarrow> string" where
  "platformKey e = platform e @ ''-'' @ arch e"

subsection \<open>setupIndependentRust\<close>

definition copyDir :: "path \<Rightarrow> path \<Rightarrow> action" where
  "copyDir src dest w =
     (if \<not> existsSync (files w) src then emit (Warn_SourceNotFound src) w
      else fs_op (cpSync src dest) w)"

definition targetTriple :: "string \<Rightarrow> string" where
  "targetTriple key =
     (if key = ''linux-x64'' then ''x86_64-unknown-linux-gnu''
      else if key = ''darwin-arm64'' then ''aarch64-apple-darwin''
      else if key = ''darwin-x64'' then ''x86_64-apple-darwin''
      else [])"

definition androidTargets :: "string list" where
  "androidTargets =
     [''i686-linux-android'', ''x86_64-linux-android'', ''armv7-linux-androideabi'',
      ''aarch64-linux-android'']"

definition copyAndroid :: "path \<Rightarrow> path \<Rightarrow> string \<Rightarrow> action" where
  "copyAndroid unpackedPath libPath target =
     copyDir (path_join unpackedPath [''rust-std-'' @ target, ''lib'', ''rustlib'', target])
       (path_join libPath [''rustlib'', target])"

definition setupIndependentRust :: "env \<Rightarrow> path \<Rightarrow> action" where
  "setupIndependentRust e unpackedPath =
     (let distPath = path_join unpackedPath [''dist''];
          binPath = path_join distPath [''bin''];
          libPath = path_join distPath [''lib''];
          triple = targetTriple (platformKey e);
          stdLibSrc = path_join unpackedPath [''rust-std-'' @ triple, ''lib'', ''rustlib''];
          stdLibDest = path_join libPath [''rustlib'']
      in steps
        [emit (Log_CreatingToolchain distPath),
         rm_if_exists distPath,
         fs_op (mkdirSync_recursive binPath),
         fs_op (mkdirSync_recursive libPath),
         emit (Log_Assembling triple),
         emit Log_CopyingBinaries,
         copyDir (path_join unpackedPath [''rustc'', ''bin'']) binPath,
         copyDir (path_join unpackedPath [''rustc'', ''lib'']) libPath,
         copyDir (path_join unpackedPath [''cargo'', ''bin'']) binPath,
         copyDir stdLibSrc stdLibDest,
         (if platform e = ''linux''
          then steps (emit Log_CopyingAndroid # map (copyAndroid unpackedPath libPath) androidTargets)
          else skip),
         rm_if_exists (path_join [] [''dist'']),
         fs_op (mkdirSync (path_join [] [''dist''])),
         copyDir distPath (path_join [] [''dist'']),
         emit Log_Assembled])"

subsection \<open>downloadAndExtract\<close>

text \<open>The lines the read loop prints, one for each chunk.\<close>

fun read_loop :: "nat \<Rightarrow> nat \<Rightarrow> string list \<Rightarrow> event list" where
  "read_loop totalSize receivedLength [] = []"
| "read_loop totalSize receivedLength (v # vs) =
     (if totalSize \<noteq> 0 then Out_Percent (receivedLength + length v) totalSize
      else Out_Received (receivedLength + length v))
     # read_loop totalSize (receivedLength + length v) vs"

text \<open>
  \<^verbatim>\<open>createWriteStream(p)\<close> and the \<^verbatim>\<open>writer.write\<close> calls: the file is created (with
  the permission bits \<^verbatim>\<open>0o644\<close>) or truncated, and the bytes are stored as far as the
  disk takes them. A directory at \<open>p\<close>, a parent that is no directory and a full disk
  are errors of the stream.
\<close>

definition write_stream ::
  "env \<Rightarrow> path \<Rightarrow> string \<Rightarrow> filesystem \<Rightarrow> error option \<times> filesystem" where
  "write_stream e p bytes fs =
     (case lookup fs p of
        Some Dir \<Rightarrow> (Some (FsError EISDIR p), fs)
      | other \<Rightarrow>
          if lookup fs (butlast p) \<noteq> Some Dir then (Some (FsError ENOENT p), fs)
          else
            (let m = (case other of Some (File m' c) \<Rightarrow> m' | _ \<Rightarrow> 420) in
             case disk_limit e of
               None \<Rightarrow> (None, (p, File m bytes) # fs)
             | Some k \<Rightarrow>
                 if k < length bytes then (Some (FsError ENOSPC p), (p, File m (take k bytes)) # fs)
                 else (None, (p, File m bytes) # fs)))"

text \<open>The \<^verbatim>\<open>catch\<close> block of \<^verbatim>\<open>downloadAndExtract\<close>.\<close>

definition catch_block :: "string \<Rightarrow> path \<Rightarrow> error \<Rightarrow> action" where
  "catch_block url tempArchivePath err w =
     (let w1 = w\<lparr>console := console w @ [Err_FailedToDownload url err]\<rparr> in
      if existsSync (files w1) tempArchivePath
      then (case rm tempArchivePath (files w1) of
              Inl err' \<Rightarrow> (Some (Thrown err'), w1)
            | Inr fs' \<Rightarrow> (Some (Thrown err), w1\<lparr>files := fs'\<rparr>))
      else (Some (Thrown err), w1))"

text \<open>
  The listener of the writer's \<^verbatim>\<open>finish\<close> event, which settles the promise that
  \<^verbatim>\<open>downloadAndExtract\<close> returns. The promise is returned from the \<^verbatim>\<open>try\<close> block
  without \<^verbatim>\<open>await\<close>: its rejection goes to the caller and not through the
  \<^verbatim>\<open>catch\<close> block. An error of \<^verbatim>\<open>await rm(tempArchivePath)\<close> rejects the listener's own
  promise, which nobody handles.
\<close>

definition on_finish :: "env \<Rightarrow> string \<Rightarrow> path \<Rightarrow> path \<Rightarrow> action" where
  "on_finish e url tempArchivePath extractPath w =
     (let w1 = w\<lparr>console := console w @
                  [Out_DownloadComplete, Log_Extracting (last tempArchivePath)]\<rparr>;
          tarProcess = tar e tempArchivePath extractPath (files w1);
          w2 = w1\<lparr>files := snd tarProcess\<rparr>
      in if fst tarProcess \<noteq> Some 0 then (Some (Thrown (TarExtractionFailed url)), w2)
         else (case rm tempArchivePath (files w2) of
                 Inl err \<Rightarrow> (Some (Crashed err), w2)
               | Inr fs' \<Rightarrow> (None, w2\<lparr>files := fs'\<rparr>)))"

text \<open>
  The \<^verbatim>\<open>try\<close> block. The writer's \<^verbatim>\<open>error\<close> listener is attached after the read loop
  only, so an error of the stream that is raised while the body is still being read has
  no listener and ends the process; raised later, it rejects the returned promise. The
  model takes the first; neither passes through the \<^verbatim>\<open>catch\<close> block.

  An error of the body (\<^verbatim>\<open>reader.read()\<close> rejects) does go through the \<^verbatim>\<open>catch\<close> block.
  If the stream has opened its file by then, the block finds the partial archive and
  removes it; if not (\<open>late_open\<close>), the block sees the path as it was before the
  download, and the stream creates the file after it.
\<close>

definition try_block :: "env \<Rightarrow> string \<Rightarrow> path \<Rightarrow> path \<Rightarrow> action" where
  "try_block e url tempArchivePath extractPath w =
     (let w1 = w\<lparr>console := console w @ [Log_Fetching url]\<rparr> in
      case fetch e url of
        Rejected msg \<Rightarrow> catch_block url tempArchivePath (FetchRejected msg) w1
      | Responded r \<Rightarrow>
          if \<not> ok r
          then catch_block url tempArchivePath (HttpError (status r) (statusText r)) w1
          else
            (let totalSize = (case content_length r of None \<Rightarrow> 0 | Some n \<Rightarrow> n);
                 w2 = w1\<lparr>console := console w1 @
                        Log_Downloading (last tempArchivePath) # read_loop totalSize 0 (chunks r)\<rparr>;
                 written = write_stream e tempArchivePath (concat (chunks r)) (files w2);
                 w3 = w2\<lparr>files := snd written\<rparr>
             in case stream_error r of
                  None \<Rightarrow>
                    (case fst written of
                       Some err \<Rightarrow> (Some (Crashed err), w3)
                     | None \<Rightarrow> on_finish e url tempArchivePath extractPath w3)
                | Some msg \<Rightarrow>
                    (case late_open e of
                       None \<Rightarrow>
                         (case fst written of
                            Some err \<Rightarrow> (Some (Crashed err), w3)
                          | None \<Rightarrow> catch_block url tempArchivePath (FetchRejected msg) w3)
                     | Some k \<Rightarrow>
                         (case catch_block url tempArchivePath (FetchRejected msg) w2 of
                            (f, w4) \<Rightarrow>
                              (f, w4\<lparr>files := snd (write_stream e tempArchivePath
                                     (take k (concat (chunks r))) (files w4))\<rparr>)))))"

text \<open>\<^verbatim>\<open>path.join(__dirname, "download", path.basename(new URL(url).pathname))\<close>, from
  the base name.\<close>

definition tempArchivePath :: "string \<Rightarrow> path" where
  "tempArchivePath name = path_join [] [''download'', name]"

definition downloadAndExtract :: "env \<Rightarrow> string \<Rightarrow> path \<Rightarrow> action" where
  "downloadAndExtract e url extractPath w =
     (case archive_name e url of
        None \<Rightarrow> (Some (Thrown (InvalidURL url)), w)
      | Some name \<Rightarrow>
          (let downloadPath = path_join [] [''download''] in
           steps
             [(if \<not> existsSync (files w) downloadPath
               then fs_op (mkdirSync_recursive downloadPath) else skip),
              try_block e url (tempArchivePath name) extractPath] w))"

subsection \<open>run\<close>

text \<open>The table is read with \<^verbatim>\<open>PLATFORMS[platformKey]\<close>; a key always holds a hyphen,
  so no inherited property of the object answers for it.\<close>

definition verify :: action where
  "verify w =
     (let binPath = path_join [] [''dist'', ''bin'', BINARY_NAME] in
      if existsSync (files w) binPath
      then steps [fs_op (chmodSync binPath 493), emit (Log_Success (path_join [] [''dist'']))] w
      else (None, w))"

definition run :: "env \<Rightarrow> world \<Rightarrow> nat \<times> world" where
  "run e w =
     (case map_of PLATFORMS (platformKey e) of
        None \<Rightarrow> (1, w\<lparr>console := console w @ [Err_UnsupportedPlatform (platformKey e)]\<rparr>)
      | Some mainUrl \<Rightarrow>
          (let extractPath = path_join [] [''extract''] in
           case steps [rm_if_exists extractPath, fs_op (mkdirSync_recursive extractPath)] w of
             (Some (Thrown err), w') \<Rightarrow> (1, w'\<lparr>console := console w' @ [Uncaught err]\<rparr>)
           | (Some (Crashed err), w') \<Rightarrow> (1, w'\<lparr>console := console w' @ [Uncaught err]\<rparr>)
           | (None, w') \<Rightarrow>
               (case steps
                  [downloadAndExtract e mainUrl extractPath,
                   (if platform e = ''linux''
                    then steps (emit Log_DownloadingAndroid #
                                map (\<lambda>url. downloadAndExtract e url extractPath) ANDROID_STDS)
                    else skip),
                   setupIndependentRust e extractPath,
                   verify] w' of
                  (None, w'') \<Rightarrow> (0, w'')
                | (Some (Thrown err), w'') \<Rightarrow>
                    (1, w''\<lparr>console := console w'' @ [Err_InstallationFailed err]\<rparr>)
                | (Some (Crashed err), w'') \<Rightarrow>
                    (1, w''\<lparr>console := console w'' @ [Uncaught err]\<rparr>))))"




section \<open>Example environments\<close>

text \<open>Concrete environments, for the instances at which the theorems below are checked.
  Their \<^verbatim>\<open>tar\<close> cannot start where the extraction directory is missing (it is the
  working directory of the process).\<close>

definition example_archive_name :: "string \<Rightarrow> string option" where
  "example_archive_name url = Some (rev (takeWhile (\<lambda>c. c \<noteq> CHR ''/'') (rev url)))"

definition example_response :: "string list \<Rightarrow> response" where
  "example_response body =
     \<lparr>ok = True, status = 200, statusText = ''OK'', content_length = Some (length (concat body)),
      chunks = body, stream_error = None\<rparr>"

definition example_tar ::
  "nat option \<Rightarrow> filesystem \<Rightarrow> path \<Rightarrow> path \<Rightarrow> filesystem \<Rightarrow> nat option \<times> filesystem" where
  "example_tar st entries archive dir fs =
     (if lookup fs dir \<noteq> Some Dir then (None, fs)
      else (st, map (\<lambda>(q, n). (dir @ q, n)) entries @ fs))"

definition example_env :: "string \<Rightarrow> string \<Rightarrow> fetch_result \<Rightarrow> nat option \<Rightarrow> filesystem \<Rightarrow> env" where
  "example_env os cpu answer st entries =
     \<lparr>platform = os, arch = cpu, archive_name = example_archive_name,
      fetch = (\<lambda>url. answer), tar = example_tar st entries, disk_limit = None,
      late_open = None\<rparr>"

definition example_staging :: filesystem where
  "example_staging =
     [([''extract''], Dir),
      ([''extract'', ''rustc''], Dir),
      ([''extract'', ''rustc'', ''bin''], Dir),
      ([''extract'', ''rustc'', ''bin'', ''rustc''], File 420 ''ELF''),
      ([''extract'', ''rustc'', ''lib''], Dir),
      ([''extract'', ''rustc'', ''lib'', ''librustc_driver.so''], File 420 ''ELF''),
      ([''extract'', ''rust-std-x86_64-unknown-linux-gnu''], Dir),
      ([''extract'', ''rust-std-x86_64-unknown-linux-gnu'', ''lib''], Dir),
      ([''extract'', ''rust-std-x86_64-unknown-linux-gnu'', ''lib'', ''rustlib''], Dir),
      ([''extract'', ''rust-std-x86_64-unknown-linux-gnu'', ''lib'', ''rustlib'',
        ''x86_64-unknown-linux-gnu''], Dir),
      ([''extract'', ''rust-std-i686-linux-android''], Dir),
      ([''extract'', ''rust-std-i686-linux-android'', ''lib''], Dir),
      ([''extract'', ''rust-std-i686-linux-android'', ''lib'', ''rustlib''], Dir),
      ([''extract'', ''rust-std-i686-linux-android'', ''lib'', ''rustlib'',
        ''i686-linux-android''], Dir)]"

definition example_linux :: env where
  "example_linux = example_env ''linux'' ''x64'' (Rejected []) None []"



definition example_url :: string where
  "example_url = ''https://static.rust-lang.org/dist/missing.tar.xz''"

definition example_darwin :: env where
  "example_darwin =
     example_env ''darwin'' ''arm64'' (Responded (example_response [''ab'', ''c''])) (Some 0)
       [([''rustc''], Dir), ([''rustc'', ''bin''], Dir),
        ([''rustc'', ''bin'', ''rustc''], File 420 ''ELF'')]"

definition example_start :: world where
  "example_start = \<lparr>files = [], console = []\<rparr>"

definition example_win32 :: env where
  "example_win32 = example_env ''win32'' ''x64'' (Rejected []) None []"

definition example_empty_staging :: world where
  "example_empty_staging = \<lparr>files = [([''extract''], Dir)], console = []\<rparr>"

definition example_empty_body :: "nat option \<Rightarrow> env" where
  "example_empty_body st =
     example_env ''linux'' ''x64'' (Responded (example_response [])) st []"

definition example_tar_fails :: env where
  "example_tar_fails =
     example_env ''linux'' ''x64'' (Responded (example_response [''ab'', ''c''])) (Some 2) []"

definition example_disk_full :: env where
  "example_disk_full =
     (example_env ''linux'' ''x64'' (Responded (example_response [''ab'', ''c''])) (Some 0) [])
       \<lparr>disk_limit := Some 2\<rparr>"

definition example_all_ok :: "string \<Rightarrow> string \<Rightarrow> env" where
  "example_all_ok os cpu =
     example_env os cpu (Responded (example_response [''ab'', ''c''])) (Some 0)
       [([''rustc''], Dir), ([''rustc'', ''bin''], Dir),
        ([''rustc'', ''bin'', ''rustc''], File 420 ''ELF'')]"


definition example_primary_staging :: filesystem where
  "example_primary_staging =
     [([''extract''], Dir),
      ([''extract'', ''rustc''], Dir),
      ([''extract'', ''rustc'', ''bin''], Dir),
      ([''extract'', ''rustc'', ''bin'', ''rustc''], File 420 ''ELF''),
      ([''extract'', ''rustc'', ''lib''], Dir),
      ([''extract'', ''rustc'', ''lib'', ''rustlib''], Dir),
      ([''extract'', ''rustc'', ''lib'', ''rustlib'', ''etc''], Dir),
      ([''extract'', ''rust-std-x86_64-unknown-linux-gnu''], Dir),
      ([''extract'', ''rust-std-x86_64-unknown-linux-gnu'', ''lib''], Dir),
      ([''extract'', ''rust-std-x86_64-unknown-linux-gnu'', ''lib'', ''rustlib''], Dir),
      ([''extract'', ''rust-std-x86_64-unknown-linux-gnu'', ''lib'', ''rustlib'',
        ''x86_64-unknown-linux-gnu''], Dir)]"

definition example_cross_staging :: filesystem where
  "example_cross_staging =
     [([''extract''], Dir),
      ([''extract'', ''rustc''], Dir),
      ([''extract'', ''rustc'', ''bin''], Dir),
      ([''extract'', ''rustc'', ''bin'', ''rustc''], File 420 ''ELF''),
      ([''extract'', ''rust-std-x86_64-apple-darwin''], Dir),
      ([''extract'', ''rust-std-x86_64-apple-darwin'', ''lib''], Dir),
      ([''extract'', ''rust-std-x86_64-apple-darwin'', ''lib'', ''rustlib''], Dir),
      ([''extract'', ''rust-std-x86_64-apple-darwin'', ''lib'', ''rustlib'',
        ''x86_64-apple-darwin''], Dir),
      ([''extract'', ''rust-std-i686-linux-android''], Dir),
      ([''extract'', ''rust-std-i686-linux-android'', ''lib''], Dir),
      ([''extract'', ''rust-std-i686-linux-android'', ''lib'', ''rustlib''], Dir),
      ([''extract'', ''rust-std-i686-linux-android'', ''lib'', ''rustlib'',
        ''i686-linux-android''], Dir)]"

definition example_darwin_x64 :: env where
  "example_darwin_x64 = example_env ''darwin'' ''x64'' (Rejected []) None []"






section \<open>The file system operations, path by path\<close>

lemma lookup_Nil [simp]: "lookup fs [] = Some Dir"
  by (simp add: lookup_def)

lemma lookup_rmSync:
  "lookup (rmSync p fs) q = (if q \<noteq> [] \<and> prefix p q then None else lookup fs q)"
  by (induction fs) (auto simp: lookup_def rmSync_def)

lemma lookup_append:
  "lookup (xs @ ys) q = (case lookup xs q of None \<Rightarrow> lookup ys q | Some n \<Rightarrow> Some n)"
  by (simp add: lookup_def map_add_def split: option.splits)

lemma lookup_Cons: "lookup ((p, n) # fs) q = (if q = p \<and> q \<noteq> [] then Some n else lookup fs q)"
  by (simp add: lookup_def)

lemma lookup_new_dirs:
  "lookup (map (\<lambda>q. (q, Dir)) (filter P qs)) q =
     (if q = [] \<or> (q \<in> set qs \<and> P q) then Some Dir else None)"
  by (induction qs) (auto simp: lookup_def)

lemma lookup_mkdirSync_recursive:
  assumes "mkdirSync_recursive p fs = Inr fs'"
  shows "lookup fs' q = (if prefix q p \<and> lookup fs q = None then Some Dir else lookup fs q)"
  using assms
  by (auto simp: mkdirSync_recursive_def lookup_append lookup_new_dirs in_set_prefixes
      split: if_splits option.splits)

lemma lookup_mkdirSync:
  assumes "mkdirSync p fs = Inr fs'"
  shows "lookup fs' q = (if q = p then Some Dir else lookup fs q)"
  using assms by (auto simp: mkdirSync_def existsSync_def lookup_Cons split: if_splits)

lemma lookup_cp_entries_Some:
  assumes "lookup (cp_entries src dest fs) q = Some n" and "q \<noteq> []"
  shows "prefix dest q \<and> lookup fs (src @ drop (length dest) q) = Some n"
proof -
  from assms have "(q, n) \<in> set (cp_entries src dest fs)"
    by (auto simp: lookup_def dest: map_of_SomeD)
  then obtain k where k: "(k, n) \<in> set fs" "prefix src k" "lookup fs k = Some n"
    "q = dest @ drop (length src) k"
    by (auto simp: cp_entries_def)
  from k(2) obtain r where "k = src @ r" by (auto simp: prefix_def)
  with k show ?thesis by simp
qed

lemma lookup_cp_entries_None:
  assumes "lookup (cp_entries src dest fs) (dest @ r) = None" and "src \<noteq> []"
  shows "lookup fs (src @ r) = None"
proof (rule ccontr)
  assume "lookup fs (src @ r) \<noteq> None"
  then obtain n where n: "lookup fs (src @ r) = Some n" by auto
  with assms(2) have "(src @ r, n) \<in> set fs"
    by (auto simp: lookup_def dest: map_of_SomeD)
  with n have "(dest @ r, n) \<in> set (cp_entries src dest fs)"
    by (force simp: cp_entries_def)
  then have "dest @ r \<in> fst ` set (cp_entries src dest fs)" by force
  then have "map_of (cp_entries src dest fs) (dest @ r) \<noteq> None"
    by (simp add: map_of_eq_None_iff)
  with assms show False by (simp add: lookup_def split: if_splits)
qed

lemma lookup_cp_entries:
  assumes "src \<noteq> []" and "q \<noteq> []"
  shows "lookup (cp_entries src dest fs) q =
     (if prefix dest q then lookup fs (src @ drop (length dest) q) else None)"
proof (cases "lookup (cp_entries src dest fs) q")
  case None
  show ?thesis
  proof (cases "prefix dest q")
    case True
    then obtain r where "q = dest @ r" by (auto simp: prefix_def)
    with None lookup_cp_entries_None [of src dest fs r] assms show ?thesis by simp
  next
    case False
    with None show ?thesis by simp
  qed
next
  case (Some n)
  with lookup_cp_entries_Some [OF Some assms(2)] show ?thesis by simp
qed

lemma lookup_cpSync:
  assumes "cpSync src dest fs = Inr fs'"
  shows "lookup fs' q =
     (if q \<noteq> [] \<and> prefix dest q \<and> lookup fs (src @ drop (length dest) q) \<noteq> None
      then lookup fs (src @ drop (length dest) q)
      else if prefix q (butlast dest) \<and> lookup fs q = None then Some Dir
      else lookup fs q)"
proof (cases "q = []")
  case True
  then show ?thesis by simp
next
  case False
  from assms have "\<not> prefix src dest"
    by (auto simp: cpSync_def split: option.splits if_splits)
  then have src: "src \<noteq> []" by auto
  from assms obtain fs1 where mk: "mkdirSync_recursive (butlast dest) fs = Inr fs1"
    and fs': "fs' = cp_entries src dest fs @ fs1"
    by (auto simp: cpSync_def split: option.splits if_splits sum.splits list.splits)
  show ?thesis
    unfolding fs' lookup_append lookup_cp_entries [OF src False]
      lookup_mkdirSync_recursive [OF mk]
    using False by (simp split: option.splits)
qed

lemma lookup_rm:
  assumes "rm p fs = Inr fs'"
  shows "lookup fs' q = (if q = p then None else lookup fs q)"
proof -
  have "lookup (filter (\<lambda>(k, n). k \<noteq> p) fs) q = (if q = p \<and> q \<noteq> [] then None else lookup fs q)"
    by (induction fs) (auto simp: lookup_def)
  with assms show ?thesis
    by (auto simp: rm_def split: option.splits node.splits)
qed

lemma lookup_chmodSync:
  assumes "chmodSync p mode fs = Inr fs'"
  shows "lookup fs' q =
     (if q = p then (case lookup fs p of Some (File m c) \<Rightarrow> Some (File mode c) | x \<Rightarrow> x)
      else lookup fs q)"
  using assms by (auto simp: chmodSync_def lookup_Cons split: option.splits node.splits)

lemma set_readdir: "set (readdir fs p) = {c. existsSync fs (p @ [c])}"
proof -
  have "c \<in> set (readdir fs p) \<longleftrightarrow> p @ [c] \<in> fst ` set fs" for c
  proof
    assume "c \<in> set (readdir fs p)"
    then obtain q n where "(q, n) \<in> set fs" "q \<noteq> []" "butlast q = p" "c = last q"
      by (auto simp: readdir_def)
    then have "(p @ [c], n) \<in> set fs" by (metis append_butlast_last_id)
    then show "p @ [c] \<in> fst ` set fs" by force
  next
    assume "p @ [c] \<in> fst ` set fs"
    then obtain n where "(p @ [c], n) \<in> set fs" by auto
    then show "c \<in> set (readdir fs p)" by (force simp: readdir_def)
  qed
  then show ?thesis
    by (auto simp: existsSync_def lookup_def map_of_eq_None_iff)
qed

section \<open>Sequencing\<close>

lemma steps_Cons_None:
  "steps (a # as) w = (None, w') \<longleftrightarrow> (\<exists>w1. a w = (None, w1) \<and> steps as w1 = (None, w'))"
  by (auto split: prod.splits option.splits)

declare steps.simps [simp del]

lemma steps_Nil [simp]: "steps [] w = (None, w)"
  by (simp add: steps.simps)

text \<open>
  Claim C3. For every platform key outside the supported set (\<^verbatim>\<open>darwin-arm64\<close>,
  \<^verbatim>\<open>darwin-x64\<close>, \<^verbatim>\<open>linux-x64\<close>) the program reports the unsupported platform and ends
  with exit status 1; the file system is the one it started with.
\<close>

theorem run_unsupported_platform:
  assumes "platformKey e \<notin> {''darwin-arm64'', ''darwin-x64'', ''linux-x64''}"
  shows "run e w = (1, w\<lparr>console := console w @ [Err_UnsupportedPlatform (platformKey e)]\<rparr>)"
  using assms by (simp add: run_def PLATFORMS_def)

theorem run_unsupported_platform_witness:
  "platformKey (example_env ''win32'' ''x64'' (Rejected []) None [])
     \<notin> {''darwin-arm64'', ''darwin-x64'', ''linux-x64''}
   \<and> fst (run (example_env ''win32'' ''x64'' (Rejected []) None []) \<lparr>files = [], console = []\<rparr>) = 1
   \<and> files (snd (run (example_env ''win32'' ''x64'' (Rejected []) None []) \<lparr>files = [], console = []\<rparr>)) = []"
  using run_unsupported_platform [of "example_env ''win32'' ''x64'' (Rejected []) None []" "\<lparr>files = [], console = []\<rparr>"]
  by (simp add: platformKey_def example_env_def)






text \<open>
  Claim C10. When \<^verbatim>\<open>downloadAndExtract\<close> completes, the archive is no longer at its
  temporary path in the download directory.
\<close>

theorem archive_removed_after_success:
  assumes "downloadAndExtract e url extractPath w = (None, w')"
  shows "\<exists>name. archive_name e url = Some name \<and> \<not> existsSync (files w') (tempArchivePath name)"
proof -
  from assms obtain name where name: "archive_name e url = Some name"
    by (cases "archive_name e url") (auto simp: downloadAndExtract_def)
  with assms obtain w1 where "try_block e url (tempArchivePath name) extractPath w1 = (None, w')"
    by (auto simp: downloadAndExtract_def Let_def steps_Cons_None)
  then obtain w2 where fin: "on_finish e url (tempArchivePath name) extractPath w2 = (None, w')"
    by (auto simp: try_block_def catch_block_def Let_def
        split: fetch_result.splits if_splits option.splits sum.splits)
  then obtain fs2 where "rm (tempArchivePath name) fs2 = Inr (files w')"
    by (auto simp: on_finish_def Let_def split: if_splits sum.splits)
  from lookup_rm [OF this, of "tempArchivePath name"] name show ?thesis
    by (simp add: existsSync_def)
qed

theorem archive_removed_after_success_witness:
  "fst (downloadAndExtract example_darwin example_url [''extract''] example_empty_staging) = None
   \<and> archive_name example_darwin example_url = Some ''missing.tar.xz''
   \<and> \<not> existsSync
         (files (snd (downloadAndExtract example_darwin example_url [''extract''] example_empty_staging)))
         (tempArchivePath ''missing.tar.xz'')
   \<and> existsSync
         (files (snd (downloadAndExtract example_darwin example_url [''extract''] example_empty_staging)))
         [''extract'', ''rustc'', ''bin'', ''rustc'']"
proof -
  define w' where "w' = snd (downloadAndExtract example_darwin example_url [''extract''] example_empty_staging)"
  have ok: "fst (downloadAndExtract example_darwin example_url [''extract''] example_empty_staging) = None"
    by code_simp
  then have "downloadAndExtract example_darwin example_url [''extract''] example_empty_staging = (None, w')"
    by (simp add: w'_def prod_eq_iff)
  from archive_removed_after_success [OF this]
  obtain name where n: "archive_name example_darwin example_url = Some name"
    and gone: "\<not> existsSync (files w') (tempArchivePath name)" by blast
  have name: "archive_name example_darwin example_url = Some ''missing.tar.xz''"
    by (simp add: example_darwin_def example_env_def example_archive_name_def example_url_def)
  have ex: "existsSync (files w') [''extract'', ''rustc'', ''bin'', ''rustc'']"
    unfolding w'_def by code_simp
  from n gone name ok ex show ?thesis by (simp add: w'_def)
qed

lemma verify_mode:
  assumes "verify w = (None, w')"
    and "lookup (files w') (path_join [] [''dist'', ''bin'', BINARY_NAME]) = Some (File m c)"
  shows "m = 493"
proof (cases "existsSync (files w) (path_join [] [''dist'', ''bin'', BINARY_NAME])")
  case True
  with assms(1) obtain fs' where ch: "chmodSync (path_join [] [''dist'', ''bin'', BINARY_NAME]) 493 (files w) = Inr fs'"
    and w': "files w' = fs'"
    by (auto simp: verify_def Let_def fs_op_def emit_def steps.simps split: sum.splits)
  from lookup_chmodSync [OF ch, of "path_join [] [''dist'', ''bin'', BINARY_NAME]"] assms(2) w'
  show ?thesis by (auto split: option.splits node.splits)
next
  case False
  with assms show ?thesis by (simp add: verify_def Let_def existsSync_def)
qed

lemma run_success_verify:
  assumes "run e w = (0, w')"
  shows "\<exists>w1. verify w1 = (None, w')"
proof -
  from assms obtain mainUrl where "map_of PLATFORMS (platformKey e) = Some mainUrl"
    by (cases "map_of PLATFORMS (platformKey e)") (auto simp: run_def)
  with assms show ?thesis
    by (auto simp: run_def Let_def steps_Cons_None
        split: prod.splits option.splits failure.splits)
qed

text \<open>
  Claim C6. After a successful run the compiler at \<^verbatim>\<open>dist/bin/rustc\<close> has the permission
  bits \<^verbatim>\<open>0o755\<close> (493), with the execute bit of owner, group and others, whatever bits
  the archive gave it.
\<close>

theorem executable_mode_after_run:
  assumes "run e w = (0, w')"
    and "lookup (files w') [''dist'', ''bin'', ''rustc''] = Some (File m c)"
  shows "m = 493 \<and> bit m 0 \<and> bit m 3 \<and> bit m 6"
proof -
  from run_success_verify [OF assms(1)] obtain w1 where "verify w1 = (None, w')" by blast
  from verify_mode [OF this, of m c] assms(2) have "m = 493"
    by (simp add: path_join_def BINARY_NAME_def)
  then show ?thesis by (simp add: bit_numeral_simps bit_iff_odd)
qed

theorem executable_mode_after_run_witness:
  "fst (run example_darwin example_start) = 0
   \<and> lookup (files (snd (run example_darwin example_start)))
        [''extract'', ''rustc'', ''bin'', ''rustc''] = Some (File 420 ''ELF'')
   \<and> lookup (files (snd (run example_darwin example_start)))
        [''dist'', ''bin'', ''rustc''] = Some (File 493 ''ELF'')
   \<and> bit (493 :: nat) 0 \<and> bit (493 :: nat) 3 \<and> bit (493 :: nat) 6"
proof -
  define w' where "w' = snd (run example_darwin example_start)"
  have ok: "fst (run example_darwin example_start) = 0" by code_simp
  then have run: "run example_darwin example_start = (0, w')"
    by (simp add: w'_def prod_eq_iff)
  have shipped: "lookup (files w') [''extract'', ''rustc'', ''bin'', ''rustc''] = Some (File 420 ''ELF'')"
    unfolding w'_def by code_simp
  have final: "lookup (files w') [''dist'', ''bin'', ''rustc''] = Some (File 493 ''ELF'')"
    unfolding w'_def by code_simp
  from executable_mode_after_run [OF run final] ok shipped final show ?thesis
    by (simp add: w'_def)
qed

section \<open>What exists after each step of the assembly\<close>

lemma emit_files: "emit ev w = (r, w') \<Longrightarrow> files w' = files w"
  by (auto simp: emit_def)

lemma rm_if_exists_exists:
  assumes "rm_if_exists p w = (None, w')"
  shows "existsSync (files w') q =
     (existsSync (files w) q \<and> \<not> (existsSync (files w) p \<and> q \<noteq> [] \<and> prefix p q))"
  using assms by (auto simp: rm_if_exists_def existsSync_def lookup_rmSync split: if_splits)

lemma mkdirp_exists:
  assumes "fs_op (mkdirSync_recursive p) w = (None, w')"
  shows "existsSync (files w') q = (existsSync (files w) q \<or> prefix q p)"
proof -
  from assms obtain fs' where mk: "mkdirSync_recursive p (files w) = Inr fs'" and "files w' = fs'"
    by (auto simp: fs_op_def split: sum.splits)
  with lookup_mkdirSync_recursive [OF mk, of q] show ?thesis
    by (auto simp: existsSync_def)
qed

lemma mkdir_exists:
  assumes "fs_op (mkdirSync p) w = (None, w')"
  shows "existsSync (files w') q = (existsSync (files w) q \<or> q = p)"
proof -
  from assms obtain fs' where mk: "mkdirSync p (files w) = Inr fs'" and "files w' = fs'"
    by (auto simp: fs_op_def split: sum.splits)
  with lookup_mkdirSync [OF mk, of q] show ?thesis
    by (auto simp: existsSync_def)
qed

lemma copyDir_exists:
  assumes "copyDir src dest w = (None, w')"
  shows "existsSync (files w') q =
     (existsSync (files w) q \<or>
      (existsSync (files w) src \<and>
       (prefix dest q \<and> existsSync (files w) (src @ drop (length dest) q)
        \<or> prefix q (butlast dest))))"
proof (cases "existsSync (files w) src")
  case False
  with assms show ?thesis by (auto simp: copyDir_def emit_def)
next
  case True
  with assms obtain fs' where cp: "cpSync src dest (files w) = Inr fs'" and "files w' = fs'"
    by (auto simp: copyDir_def fs_op_def split: sum.splits)
  with lookup_cpSync [OF cp, of q] True show ?thesis
    by (auto simp: existsSync_def split: if_splits)
qed

lemma wf_fs_parent:
  assumes "wf_fs fs" and "existsSync fs (p @ [c])"
  shows "lookup fs p = Some Dir"
proof -
  from assms(2) obtain n where "(p @ [c], n) \<in> set fs"
    by (auto simp: existsSync_def lookup_def dest: map_of_SomeD)
  with assms(1) show ?thesis
    by (auto simp: wf_fs_def list_all_iff)
qed

lemma wf_fs_ancestor:
  assumes "wf_fs fs" and "existsSync fs (p @ r)"
  shows "existsSync fs p"
  using assms(2)
proof (induction r rule: rev_induct)
  case Nil
  then show ?case by simp
next
  case (snoc c r)
  from wf_fs_parent [OF assms(1), of "p @ r" c] snoc.prems
  have "existsSync fs (p @ r)" by (simp add: existsSync_def)
  then show ?case by (rule snoc.IH)
qed

lemma copyDir_outside:
  assumes "copyDir src dest w = (None, w')" and "prefix [''extract'', ''dist''] dest"
    and "\<not> prefix [''extract'', ''dist''] q" and "\<not> prefix q [''extract'', ''dist'']"
  shows "existsSync (files w') q = existsSync (files w) q"
proof -
  from assms(2,3) have 1: "\<not> prefix dest q"
    using prefix_order.trans by blast
  have "prefix (butlast dest) dest" by (rule prefixeq_butlast)
  with assms(2,3,4) have 2: "\<not> prefix q (butlast dest)"
    by (meson prefix_order.trans prefix_same_cases)
  from copyDir_exists [OF assms(1), of q] 1 2 show ?thesis by simp
qed

lemma mkdirp_outside:
  assumes "fs_op (mkdirSync_recursive p) w = (None, w')" and "prefix [''extract'', ''dist''] p"
    and "\<not> prefix [''extract'', ''dist''] q" and "\<not> prefix q [''extract'', ''dist'']"
  shows "existsSync (files w') q = existsSync (files w) q"
proof -
  from assms(2,3,4) have "\<not> prefix q p"
    by (meson prefix_same_cases)
  with mkdirp_exists [OF assms(1), of q] show ?thesis by simp
qed

lemma copyDir_mono:
  assumes "copyDir src dest w = (None, w')" and "existsSync (files w) q"
  shows "existsSync (files w') q"
  using copyDir_exists [OF assms(1), of q] assms(2) by simp

lemma copyAndroid_exists:
  assumes "copyAndroid [''extract''] [''extract'', ''dist'', ''lib''] t w = (None, w')" and "t \<noteq> []"
  shows "existsSync (files w') [''extract'', ''dist'', ''lib'', ''rustlib'', c] =
     (existsSync (files w) [''extract'', ''dist'', ''lib'', ''rustlib'', c] \<or>
      c = t \<and> existsSync (files w) [''extract'', ''rust-std-'' @ t, ''lib'', ''rustlib'', t])"
proof -
  from assms have cd: "copyDir [''extract'', ''rust-std-'' @ t, ''lib'', ''rustlib'', t]
      [''extract'', ''dist'', ''lib'', ''rustlib'', t] w = (None, w')"
    by (simp add: copyAndroid_def path_join_def)
  show ?thesis
    unfolding copyDir_exists [OF cd] by auto
qed

lemma copyAndroid_outside:
  assumes "copyAndroid [''extract''] [''extract'', ''dist'', ''lib''] t w = (None, w')" and "t \<noteq> []"
    and "\<not> prefix [''extract'', ''dist''] q" and "\<not> prefix q [''extract'', ''dist'']"
  shows "existsSync (files w') q = existsSync (files w) q"
proof -
  from assms have cd: "copyDir [''extract'', ''rust-std-'' @ t, ''lib'', ''rustlib'', t]
      [''extract'', ''dist'', ''lib'', ''rustlib'', t] w = (None, w')"
    by (simp add: copyAndroid_def path_join_def)
  show ?thesis
    by (rule copyDir_outside [OF cd _ assms(3,4)]) simp
qed

lemma copyAndroid_mono:
  assumes "copyAndroid u l t w = (None, w')" and "existsSync (files w) q"
  shows "existsSync (files w') q"
  using assms by (auto simp: copyAndroid_def intro: copyDir_mono)

lemma android_loop:
  assumes "steps (map (copyAndroid [''extract''] [''extract'', ''dist'', ''lib'']) ts) w = (None, w')"
    and "[] \<notin> set ts"
  shows "(\<forall>c. existsSync (files w') [''extract'', ''dist'', ''lib'', ''rustlib'', c] =
           (existsSync (files w) [''extract'', ''dist'', ''lib'', ''rustlib'', c] \<or>
            c \<in> set ts \<and> existsSync (files w) [''extract'', ''rust-std-'' @ c, ''lib'', ''rustlib'', c]))
       \<and> (\<forall>q. \<not> prefix [''extract'', ''dist''] q \<longrightarrow> \<not> prefix q [''extract'', ''dist'']
              \<longrightarrow> existsSync (files w') q = existsSync (files w) q)
       \<and> (\<forall>q. existsSync (files w) q \<longrightarrow> existsSync (files w') q)"
  using assms
proof (induction ts arbitrary: w)
  case Nil
  then show ?case by simp
next
  case (Cons t ts)
  from Cons.prems obtain w1 where
    first: "copyAndroid [''extract''] [''extract'', ''dist'', ''lib''] t w = (None, w1)"
    and rest: "steps (map (copyAndroid [''extract''] [''extract'', ''dist'', ''lib'']) ts) w1 = (None, w')"
    by (auto simp: steps_Cons_None)
  from Cons.prems have t: "t \<noteq> []" and ts: "[] \<notin> set ts" by auto
  note ih = Cons.IH [OF rest ts]
  note ex = copyAndroid_exists [OF first t]
  note out = copyAndroid_outside [OF first t]
  have src: "existsSync (files w1) [''extract'', ''rust-std-'' @ c, ''lib'', ''rustlib'', c]
      = existsSync (files w) [''extract'', ''rust-std-'' @ c, ''lib'', ''rustlib'', c]" for c
    by (rule out) simp_all
  have "existsSync (files w') [''extract'', ''dist'', ''lib'', ''rustlib'', c] =
           (existsSync (files w) [''extract'', ''dist'', ''lib'', ''rustlib'', c] \<or>
            c \<in> set (t # ts) \<and> existsSync (files w) [''extract'', ''rust-std-'' @ c, ''lib'', ''rustlib'', c])" for c
    using ih ex [of c] src [of c] by auto
  moreover have "existsSync (files w') q = existsSync (files w) q"
    if "\<not> prefix [''extract'', ''dist''] q" "\<not> prefix q [''extract'', ''dist'']" for q
    using ih out [OF that] that by simp
  moreover have "existsSync (files w') q" if "existsSync (files w) q" for q
    using ih copyAndroid_mono [OF first that] by simp
  ultimately show ?case by blast
qed


lemma setupIndependentRust_exists:
  assumes run: "setupIndependentRust e [''extract''] w = (None, w')" and wf: "wf_fs (files w)"
  shows "(\<forall>c. existsSync (files w') [''dist'', ''lib'', ''rustlib'', c] =
           (existsSync (files w) [''extract'', ''rustc'', ''lib'', ''rustlib'', c] \<or>
            existsSync (files w)
              [''extract'', ''rust-std-'' @ targetTriple (platformKey e), ''lib'', ''rustlib'', c] \<or>
            platform e = ''linux'' \<and> c \<in> set androidTargets \<and>
            existsSync (files w) [''extract'', ''rust-std-'' @ c, ''lib'', ''rustlib'', c]))
       \<and> (\<forall>x. existsSync (files w) [''extract'', ''rustc'', ''bin'', x]
              \<longrightarrow> existsSync (files w') [''dist'', ''bin'', x])
       \<and> existsSync (files w') [''dist'', ''bin''] \<and> existsSync (files w') [''dist'', ''lib'']"
proof -
  define T where "T = targetTriple (platformKey e)"
  define ts where "ts = (if platform e = ''linux'' then androidTargets else [])"
  from run obtain w1 w2 w3 w4 w5 w6 w7 w8 w9 w10 w11 w12 w13 w14 where
    s1: "emit (Log_CreatingToolchain [''extract'', ''dist'']) w = (None, w1)"
    and s2: "rm_if_exists [''extract'', ''dist''] w1 = (None, w2)"
    and s3: "fs_op (mkdirSync_recursive [''extract'', ''dist'', ''bin'']) w2 = (None, w3)"
    and s4: "fs_op (mkdirSync_recursive [''extract'', ''dist'', ''lib'']) w3 = (None, w4)"
    and s5: "emit (Log_Assembling T) w4 = (None, w5)"
    and s6: "emit Log_CopyingBinaries w5 = (None, w6)"
    and s7: "copyDir [''extract'', ''rustc'', ''bin''] [''extract'', ''dist'', ''bin''] w6 = (None, w7)"
    and s8: "copyDir [''extract'', ''rustc'', ''lib''] [''extract'', ''dist'', ''lib''] w7 = (None, w8)"
    and s9: "copyDir [''extract'', ''cargo'', ''bin''] [''extract'', ''dist'', ''bin''] w8 = (None, w9)"
    and s10: "copyDir [''extract'', ''rust-std-'' @ T, ''lib'', ''rustlib'']
                [''extract'', ''dist'', ''lib'', ''rustlib''] w9 = (None, w10)"
    and s11: "(if platform e = ''linux''
               then steps (emit Log_CopyingAndroid #
                      map (copyAndroid [''extract''] [''extract'', ''dist'', ''lib'']) androidTargets)
               else skip) w10 = (None, w11)"
    and s12: "rm_if_exists [''dist''] w11 = (None, w12)"
    and s13: "fs_op (mkdirSync [''dist'']) w12 = (None, w13)"
    and s14: "copyDir [''extract'', ''dist''] [''dist''] w13 = (None, w14)"
    and s15: "emit Log_Assembled w14 = (None, w')"
    unfolding setupIndependentRust_def Let_def T_def
    by (simp add: steps_Cons_None path_join_def cong: if_cong) (elim exE conjE, rule that [unfolded T_def append.simps])
  have "\<exists>w10'. files w10' = files w10 \<and>
      steps (map (copyAndroid [''extract''] [''extract'', ''dist'', ''lib'']) ts) w10' = (None, w11)"
  proof (cases "platform e = ''linux''")
    case True
    with s11 have "steps (map (copyAndroid [''extract''] [''extract'', ''dist'', ''lib'']) ts)
        (w10\<lparr>console := console w10 @ [Log_CopyingAndroid]\<rparr>) = (None, w11)"
      by (simp add: ts_def steps_Cons_None emit_def)
    then show ?thesis
      by (intro exI [of _ "w10\<lparr>console := console w10 @ [Log_CopyingAndroid]\<rparr>"]) simp
  next
    case False
    with s11 show ?thesis
      by (intro exI [of _ w10]) (simp add: ts_def skip_def)
  qed
  then obtain w10' where f10: "files w10' = files w10"
    and loop: "steps (map (copyAndroid [''extract''] [''extract'', ''dist'', ''lib'']) ts) w10' = (None, w11)"
    by blast
  have nonempty: "[] \<notin> set ts" by (simp add: ts_def androidTargets_def)
  note android = android_loop [OF loop nonempty, unfolded f10]
  note f1 = emit_files [OF s1] and f5 = emit_files [OF s5] and f6 = emit_files [OF s6]
    and f15 = emit_files [OF s15]
  text \<open>What lies outside \<^verbatim>\<open>extract/dist\<close> stays as it is until the final replacement.\<close>
  have out2: "existsSync (files w2) q = existsSync (files w) q"
    if "\<not> prefix [''extract'', ''dist''] q" for q
    using rm_if_exists_exists [OF s2, of q] that by (simp add: f1)
  have out4: "existsSync (files w4) q = existsSync (files w) q"
    if "\<not> prefix [''extract'', ''dist''] q" "\<not> prefix q [''extract'', ''dist'']" for q
    using mkdirp_outside [OF s4 _ that] mkdirp_outside [OF s3 _ that] out2 [OF that(1)] by simp
  have out7: "existsSync (files w7) q = existsSync (files w) q"
    if "\<not> prefix [''extract'', ''dist''] q" "\<not> prefix q [''extract'', ''dist'']" for q
    using copyDir_outside [OF s7 _ that] out4 [OF that] by (simp add: f5 f6)
  have out8: "existsSync (files w8) q = existsSync (files w) q"
    if "\<not> prefix [''extract'', ''dist''] q" "\<not> prefix q [''extract'', ''dist'']" for q
    using copyDir_outside [OF s8 _ that] out7 [OF that] by simp
  have out9: "existsSync (files w9) q = existsSync (files w) q"
    if "\<not> prefix [''extract'', ''dist''] q" "\<not> prefix q [''extract'', ''dist'']" for q
    using copyDir_outside [OF s9 _ that] out8 [OF that] by simp
  have out10: "existsSync (files w10) q = existsSync (files w) q"
    if "\<not> prefix [''extract'', ''dist''] q" "\<not> prefix q [''extract'', ''dist'']" for q
    using copyDir_outside [OF s10 _ that] out9 [OF that] by simp
  have out11: "existsSync (files w11) q = existsSync (files w) q"
    if "\<not> prefix [''extract'', ''dist''] q" "\<not> prefix q [''extract'', ''dist'']" for q
    using android out10 [OF that] that by simp
  text \<open>The staged tree is well-formed: what lies in a directory comes with the directory.\<close>
  have anc: "existsSync (files w) p" if "existsSync (files w) (p @ r)" for p r
    using wf_fs_ancestor [OF wf that] .
  text \<open>\<^verbatim>\<open>extract/dist/lib/rustlib\<close>, step by step.\<close>
  have r2: "\<not> existsSync (files w2) [''extract'', ''dist'', ''lib'', ''rustlib'', c]" for c
    using rm_if_exists_exists [OF s2, of "[''extract'', ''dist'', ''lib'', ''rustlib'', c]"]
      anc [of "[''extract'', ''dist'']" "[''lib'', ''rustlib'', c]"]
    by (auto simp: f1)
  have r4: "\<not> existsSync (files w4) [''extract'', ''dist'', ''lib'', ''rustlib'', c]" for c
    using mkdirp_exists [OF s4, of "[''extract'', ''dist'', ''lib'', ''rustlib'', c]"]
      mkdirp_exists [OF s3, of "[''extract'', ''dist'', ''lib'', ''rustlib'', c]"] r2 [of c]
    by simp
  have r7: "\<not> existsSync (files w7) [''extract'', ''dist'', ''lib'', ''rustlib'', c]" for c
    using copyDir_exists [OF s7, of "[''extract'', ''dist'', ''lib'', ''rustlib'', c]"] r4 [of c]
    by (simp add: f5 f6)
  have r8: "existsSync (files w8) [''extract'', ''dist'', ''lib'', ''rustlib'', c]
      = existsSync (files w) [''extract'', ''rustc'', ''lib'', ''rustlib'', c]" for c
    using copyDir_exists [OF s8, of "[''extract'', ''dist'', ''lib'', ''rustlib'', c]"] r7 [of c]
      out7 [of "[''extract'', ''rustc'', ''lib'']"]
      out7 [of "[''extract'', ''rustc'', ''lib'', ''rustlib'', c]"]
      anc [of "[''extract'', ''rustc'', ''lib'']" "[''rustlib'', c]"]
    by auto
  have r9: "existsSync (files w9) [''extract'', ''dist'', ''lib'', ''rustlib'', c]
      = existsSync (files w) [''extract'', ''rustc'', ''lib'', ''rustlib'', c]" for c
    using copyDir_exists [OF s9, of "[''extract'', ''dist'', ''lib'', ''rustlib'', c]"] r8 [of c]
    by simp
  have r10: "existsSync (files w10) [''extract'', ''dist'', ''lib'', ''rustlib'', c]
      = (existsSync (files w) [''extract'', ''rustc'', ''lib'', ''rustlib'', c] \<or>
         existsSync (files w) [''extract'', ''rust-std-'' @ T, ''lib'', ''rustlib'', c])" for c
    using copyDir_exists [OF s10, of "[''extract'', ''dist'', ''lib'', ''rustlib'', c]"] r9 [of c]
      out9 [of "[''extract'', ''rust-std-'' @ T, ''lib'', ''rustlib'']"]
      out9 [of "[''extract'', ''rust-std-'' @ T, ''lib'', ''rustlib'', c]"]
      anc [of "[''extract'', ''rust-std-'' @ T, ''lib'', ''rustlib'']" "[c]"]
    by auto
  have r11: "existsSync (files w11) [''extract'', ''dist'', ''lib'', ''rustlib'', c]
      = (existsSync (files w) [''extract'', ''rustc'', ''lib'', ''rustlib'', c] \<or>
         existsSync (files w) [''extract'', ''rust-std-'' @ T, ''lib'', ''rustlib'', c] \<or>
         c \<in> set ts \<and> existsSync (files w) [''extract'', ''rust-std-'' @ c, ''lib'', ''rustlib'', c])" for c
    using android r10 [of c] out10 [of "[''extract'', ''rust-std-'' @ c, ''lib'', ''rustlib'', c]"]
    by auto
  text \<open>The directories \<^verbatim>\<open>extract/dist\<close>, \<^verbatim>\<open>extract/dist/bin\<close> and \<^verbatim>\<open>extract/dist/lib\<close>.\<close>
  have d4: "existsSync (files w4) q" if "q \<in> {[''extract'', ''dist''], [''extract'', ''dist'', ''bin''], [''extract'', ''dist'', ''lib'']}" for q
    using mkdirp_exists [OF s4, of q] mkdirp_exists [OF s3, of q] that by auto
  have up11: "existsSync (files w11) q" if "existsSync (files w6) q" for q
    using android copyDir_mono [OF s10] copyDir_mono [OF s9] copyDir_mono [OF s8]
      copyDir_mono [OF s7] that by blast
  have d11: "existsSync (files w11) q" if "q \<in> {[''extract'', ''dist''], [''extract'', ''dist'', ''bin''], [''extract'', ''dist'', ''lib'']}" for q
    using up11 [of q] d4 [OF that] by (simp add: f5 f6)
  have b7: "existsSync (files w7) [''extract'', ''dist'', ''bin'', x]"
    if "existsSync (files w) [''extract'', ''rustc'', ''bin'', x]" for x
    using copyDir_exists [OF s7, of "[''extract'', ''dist'', ''bin'', x]"] that
      out4 [of "[''extract'', ''rustc'', ''bin'']"] out4 [of "[''extract'', ''rustc'', ''bin'', x]"]
      anc [of "[''extract'', ''rustc'', ''bin'']" "[x]"]
    by (simp add: f5 f6)
  have b11: "existsSync (files w11) [''extract'', ''dist'', ''bin'', x]"
    if "existsSync (files w) [''extract'', ''rustc'', ''bin'', x]" for x
    using android copyDir_mono [OF s10] copyDir_mono [OF s9] copyDir_mono [OF s8] b7 [OF that]
    by blast
  text \<open>The final replacement of \<^verbatim>\<open>dist\<close>.\<close>
  have e13: "existsSync (files w13) (''extract'' # q) = existsSync (files w11) (''extract'' # q)" for q
    using mkdir_exists [OF s13, of "''extract'' # q"] rm_if_exists_exists [OF s12, of "''extract'' # q"]
    by simp
  have nodist11: "\<not> existsSync (files w11) (''dist'' # x # r)" if "\<not> existsSync (files w11) [''dist'']" for x r
    using out11 [of "''dist'' # x # r"] out11 [of "[''dist'']"] that anc [of "[''dist'']" "x # r"]
    by auto
  have n13: "\<not> existsSync (files w13) (''dist'' # x # r)" for x r
    using mkdir_exists [OF s13, of "''dist'' # x # r"] rm_if_exists_exists [OF s12, of "''dist'' # x # r"]
      nodist11 [of x r]
    by auto
  have fin: "existsSync (files w') (''dist'' # x # r) = existsSync (files w11) (''extract'' # ''dist'' # x # r)" for x r
    using copyDir_exists [OF s14, of "''dist'' # x # r"] n13 [of x r] e13 [of "[''dist'']"]
      e13 [of "''dist'' # x # r"] d11 [of "[''extract'', ''dist'']"]
    by (simp add: f15)
  show ?thesis
    using fin [of "''lib''" "[''rustlib'', c]" for c] r11 fin [of "''bin''" "[x]" for x] b11
      fin [of "''bin''" "[]"] fin [of "''lib''" "[]"] d11
    by (auto simp: T_def ts_def)
qed

section \<open>The assembled layout\<close>

lemma host_triple_cases:
  assumes "platformKey e \<in> {''darwin-arm64'', ''darwin-x64'', ''linux-x64''}"
  shows "targetTriple (platformKey e)
     \<in> {''aarch64-apple-darwin'', ''x86_64-apple-darwin'', ''x86_64-unknown-linux-gnu''}"
  using assms by (auto simp: targetTriple_def)

lemma length_readdir: "length (readdir fs p) = card (set (readdir fs p))"
  by (rule distinct_card [symmetric]) (simp add: readdir_def)

text \<open>
  Claim C1, as amended. On every supported platform, for a well-formed staging tree that
  holds the compiler (\<^verbatim>\<open>rustc/bin/rustc\<close>) and the standard library of the host triple
  (\<^verbatim>\<open>rust-std-<host>/lib/rustlib/<host>\<close>): after a successful assembly the output holds
  \<^verbatim>\<open>bin/rustc\<close>, \<^verbatim>\<open>lib\<close> and \<^verbatim>\<open>lib/rustlib/<host>\<close>; the entries of \<^verbatim>\<open>lib/rustlib\<close>
  are those of the staged \<^verbatim>\<open>rustc/lib/rustlib\<close> and \<^verbatim>\<open>rust-std-<host>/lib/rustlib\<close> and,
  on Linux only, every Android triple whose subtree is staged; so when the two staged
  directories hold the host triple only, the output has one entry more than there are
  staged supplementary targets (none but the host triple where there is none).
\<close>

theorem assemble_layout:
  assumes key: "platformKey e \<in> {''darwin-arm64'', ''darwin-x64'', ''linux-x64''}"
    and wf: "wf_fs (files w)"
    and rustc: "existsSync (files w) [''extract'', ''rustc'', ''bin'', BINARY_NAME]"
    and std: "existsSync (files w)
        [''extract'', ''rust-std-'' @ targetTriple (platformKey e), ''lib'', ''rustlib'',
         targetTriple (platformKey e)]"
    and run: "setupIndependentRust e [''extract''] w = (None, w')"
  shows "existsSync (files w') [''dist'', ''bin'', BINARY_NAME]
    \<and> existsSync (files w') [''dist'', ''lib'']
    \<and> existsSync (files w') [''dist'', ''lib'', ''rustlib'', targetTriple (platformKey e)]
    \<and> set (readdir (files w') [''dist'', ''lib'', ''rustlib'']) =
        set (readdir (files w) [''extract'', ''rustc'', ''lib'', ''rustlib''])
        \<union> set (readdir (files w)
             [''extract'', ''rust-std-'' @ targetTriple (platformKey e), ''lib'', ''rustlib''])
        \<union> set (filter (\<lambda>t. existsSync (files w)
                          [''extract'', ''rust-std-'' @ t, ''lib'', ''rustlib'', t])
               (if platform e = ''linux'' then androidTargets else []))
    \<and> (set (readdir (files w) [''extract'', ''rustc'', ''lib'', ''rustlib''])
           \<subseteq> {targetTriple (platformKey e)}
         \<and> set (readdir (files w)
               [''extract'', ''rust-std-'' @ targetTriple (platformKey e), ''lib'', ''rustlib''])
           \<subseteq> {targetTriple (platformKey e)}
         \<longrightarrow> length (readdir (files w') [''dist'', ''lib'', ''rustlib'']) =
             length (filter (\<lambda>t. existsSync (files w)
                          [''extract'', ''rust-std-'' @ t, ''lib'', ''rustlib'', t])
               (if platform e = ''linux'' then androidTargets else [])) + 1)"
proof -
  define T where "T = targetTriple (platformKey e)"
  define ts where "ts = filter (\<lambda>t. existsSync (files w)
      [''extract'', ''rust-std-'' @ t, ''lib'', ''rustlib'', t])
      (if platform e = ''linux'' then androidTargets else [])"
  note ex = setupIndependentRust_exists [OF run wf, folded T_def]
  have entries: "set (readdir (files w') [''dist'', ''lib'', ''rustlib'']) =
        set (readdir (files w) [''extract'', ''rustc'', ''lib'', ''rustlib''])
        \<union> set (readdir (files w) [''extract'', ''rust-std-'' @ T, ''lib'', ''rustlib''])
        \<union> set ts"
    using ex by (auto simp: set_readdir ts_def)
  have host: "existsSync (files w') [''dist'', ''lib'', ''rustlib'', T]"
    using ex std by (simp add: T_def)
  have bin: "existsSync (files w') [''dist'', ''bin'', BINARY_NAME]"
    using ex rustc by simp
  have count: "length (readdir (files w') [''dist'', ''lib'', ''rustlib'']) = length ts + 1"
    if "set (readdir (files w) [''extract'', ''rustc'', ''lib'', ''rustlib'']) \<subseteq> {T}"
      and "set (readdir (files w) [''extract'', ''rust-std-'' @ T, ''lib'', ''rustlib'']) \<subseteq> {T}"
  proof -
    from std have "T \<in> set (readdir (files w) [''extract'', ''rust-std-'' @ T, ''lib'', ''rustlib''])"
      by (simp add: set_readdir T_def)
    with that entries have eq: "set (readdir (files w') [''dist'', ''lib'', ''rustlib'']) = insert T (set ts)"
      by auto
    have "distinct ts" by (simp add: ts_def androidTargets_def)
    moreover have "T \<notin> set ts"
      using host_triple_cases [OF key] by (auto simp: ts_def T_def androidTargets_def)
    ultimately show ?thesis
      by (simp add: length_readdir eq distinct_card)
  qed
  from bin ex host entries count show ?thesis
    unfolding T_def ts_def by blast
qed

theorem assemble_layout_counterexample:
  "platformKey example_linux = ''linux-x64''
   \<and> wf_fs example_primary_staging
   \<and> existsSync example_primary_staging [''extract'', ''rustc'', ''bin'', ''rustc'']
   \<and> existsSync example_primary_staging
        [''extract'', ''rust-std-x86_64-unknown-linux-gnu'', ''lib'', ''rustlib'',
         ''x86_64-unknown-linux-gnu'']
   \<and> filter (\<lambda>t. existsSync example_primary_staging
                   [''extract'', ''rust-std-'' @ t, ''lib'', ''rustlib'', t]) androidTargets = []
   \<and> fst (setupIndependentRust example_linux [''extract'']
          \<lparr>files = example_primary_staging, console = []\<rparr>) = None
   \<and> readdir (files (snd (setupIndependentRust example_linux [''extract'']
          \<lparr>files = example_primary_staging, console = []\<rparr>))) [''dist'', ''lib'', ''rustlib'']
       = [''x86_64-unknown-linux-gnu'', ''etc'']
   \<and> platformKey example_darwin_x64 = ''darwin-x64''
   \<and> wf_fs example_cross_staging
   \<and> existsSync example_cross_staging [''extract'', ''rustc'', ''bin'', ''rustc'']
   \<and> existsSync example_cross_staging
        [''extract'', ''rust-std-x86_64-apple-darwin'', ''lib'', ''rustlib'', ''x86_64-apple-darwin'']
   \<and> existsSync example_cross_staging
        [''extract'', ''rust-std-i686-linux-android'', ''lib'', ''rustlib'', ''i686-linux-android'']
   \<and> fst (setupIndependentRust example_darwin_x64 [''extract'']
          \<lparr>files = example_cross_staging, console = []\<rparr>) = None
   \<and> readdir (files (snd (setupIndependentRust example_darwin_x64 [''extract'']
          \<lparr>files = example_cross_staging, console = []\<rparr>))) [''dist'', ''lib'', ''rustlib'']
       = [''x86_64-apple-darwin'']"
proof -
  have "platformKey example_linux = ''linux-x64''"
    by (simp add: example_linux_def example_env_def platformKey_def)
  moreover have "wf_fs example_primary_staging" by code_simp
  moreover have "existsSync example_primary_staging [''extract'', ''rustc'', ''bin'', ''rustc'']"
    by code_simp
  moreover have "existsSync example_primary_staging
        [''extract'', ''rust-std-x86_64-unknown-linux-gnu'', ''lib'', ''rustlib'',
         ''x86_64-unknown-linux-gnu'']"
    by code_simp
  moreover have "filter (\<lambda>t. existsSync example_primary_staging
                   [''extract'', ''rust-std-'' @ t, ''lib'', ''rustlib'', t]) androidTargets = []"
    by code_simp
  moreover have "fst (setupIndependentRust example_linux [''extract'']
          \<lparr>files = example_primary_staging, console = []\<rparr>) = None"
    by code_simp
  moreover have "readdir (files (snd (setupIndependentRust example_linux [''extract'']
          \<lparr>files = example_primary_staging, console = []\<rparr>))) [''dist'', ''lib'', ''rustlib'']
       = [''x86_64-unknown-linux-gnu'', ''etc'']"
    by code_simp
  moreover have "platformKey example_darwin_x64 = ''darwin-x64''"
    by (simp add: example_darwin_x64_def example_env_def platformKey_def)
  moreover have "wf_fs example_cross_staging" by code_simp
  moreover have "existsSync example_cross_staging [''extract'', ''rustc'', ''bin'', ''rustc'']"
    by code_simp
  moreover have "existsSync example_cross_staging
        [''extract'', ''rust-std-x86_64-apple-darwin'', ''lib'', ''rustlib'', ''x86_64-apple-darwin'']"
    by code_simp
  moreover have "existsSync example_cross_staging
        [''extract'', ''rust-std-i686-linux-android'', ''lib'', ''rustlib'', ''i686-linux-android'']"
    by code_simp
  moreover have "fst (setupIndependentRust example_darwin_x64 [''extract'']
          \<lparr>files = example_cross_staging, console = []\<rparr>) = None"
    by code_simp
  moreover have "readdir (files (snd (setupIndependentRust example_darwin_x64 [''extract'']
          \<lparr>files = example_cross_staging, console = []\<rparr>))) [''dist'', ''lib'', ''rustlib'']
       = [''x86_64-apple-darwin'']"
    by code_simp
  ultimately show ?thesis by blast
qed

theorem assemble_layout_witness:
  "platformKey example_linux = ''linux-x64''
   \<and> wf_fs example_staging
   \<and> fst (setupIndependentRust example_linux [''extract'']
          \<lparr>files = example_staging, console = []\<rparr>) = None
   \<and> existsSync (files (snd (setupIndependentRust example_linux [''extract'']
          \<lparr>files = example_staging, console = []\<rparr>))) [''dist'', ''bin'', ''rustc'']
   \<and> set (readdir (files (snd (setupIndependentRust example_linux [''extract'']
          \<lparr>files = example_staging, console = []\<rparr>))) [''dist'', ''lib'', ''rustlib''])
       = {''x86_64-unknown-linux-gnu'', ''i686-linux-android''}
   \<and> length (readdir (files (snd (setupIndependentRust example_linux [''extract'']
          \<lparr>files = example_staging, console = []\<rparr>))) [''dist'', ''lib'', ''rustlib'']) = 2"
proof -
  define w where "w = \<lparr>files = example_staging, console = []\<rparr>"
  define w' where "w' = snd (setupIndependentRust example_linux [''extract''] w)"
  have key: "platformKey example_linux = ''linux-x64''"
    by (simp add: example_linux_def example_env_def platformKey_def)
  have T: "targetTriple (platformKey example_linux) = ''x86_64-unknown-linux-gnu''"
    by (simp add: key targetTriple_def)
  have lin: "(platform example_linux = ''linux'') = True"
    by (simp add: example_linux_def example_env_def)
  have wf0: "wf_fs example_staging" by code_simp
  then have wf: "wf_fs (files w)" by (simp add: w_def)
  have ok: "fst (setupIndependentRust example_linux [''extract''] w) = None"
    unfolding w_def by code_simp
  then have run: "setupIndependentRust example_linux [''extract''] w = (None, w')"
    by (simp add: w'_def prod_eq_iff)
  have rustc: "existsSync (files w) [''extract'', ''rustc'', ''bin'', BINARY_NAME]"
    unfolding w_def by code_simp
  have std: "existsSync (files w) [''extract'', ''rust-std-'' @ targetTriple (platformKey example_linux),
      ''lib'', ''rustlib'', targetTriple (platformKey example_linux)]"
    unfolding T w_def by code_simp
  have r1: "readdir (files w) [''extract'', ''rustc'', ''lib'', ''rustlib''] = []"
    unfolding w_def by code_simp
  have r2: "readdir (files w) [''extract'', ''rust-std-'' @ ''x86_64-unknown-linux-gnu'', ''lib'', ''rustlib'']
      = [''x86_64-unknown-linux-gnu'']"
    unfolding w_def by code_simp
  have staged: "filter (\<lambda>t. existsSync (files w) [''extract'', ''rust-std-'' @ t, ''lib'', ''rustlib'', t])
      androidTargets = [''i686-linux-android'']"
    unfolding w_def by code_simp
  have "platformKey example_linux \<in> {''darwin-arm64'', ''darwin-x64'', ''linux-x64''}"
    by (simp add: key)
  note th = assemble_layout [OF this wf rustc std run, unfolded T lin if_True r1 r2 staged]
  from th have "existsSync (files w') [''dist'', ''bin'', ''rustc'']"
    by (simp add: BINARY_NAME_def)
  moreover from th have "set (readdir (files w') [''dist'', ''lib'', ''rustlib''])
       = {''x86_64-unknown-linux-gnu'', ''i686-linux-android''}"
    by auto
  moreover from th have "length (readdir (files w') [''dist'', ''lib'', ''rustlib'']) = 2"
    by simp
  ultimately show ?thesis
    using key wf0 ok unfolding w'_def w_def by blast
qed

section \<open>Missing sources, unmapped platforms, failures\<close>








text \<open>
  Claim C7, as amended. The target triple is a function of the platform key alone, and it
  is empty exactly for the keys that have no archive in \<^verbatim>\<open>PLATFORMS\<close>. The assembler does
  not look at the triple; it is \<^verbatim>\<open>run\<close> that rejects every such key as an unsupported
  platform, with exit status 1 and before anything is downloaded or assembled.
\<close>

theorem unmapped_platform:
  "(targetTriple key = [] \<longleftrightarrow> map_of PLATFORMS key = None)
   \<and> (platformKey e = key \<and> targetTriple key = [] \<longrightarrow>
        run e w = (1, w\<lparr>console := console w @ [Err_UnsupportedPlatform key]\<rparr>))"
  by (auto simp: targetTriple_def PLATFORMS_def run_def)

theorem unmapped_platform_counterexample:
  "targetTriple (platformKey example_win32) = []
   \<and> fst (setupIndependentRust example_win32 [''extract''] example_empty_staging) = None
   \<and> last (console (snd (setupIndependentRust example_win32 [''extract''] example_empty_staging)))
       = Log_Assembled"
  by code_simp

theorem unmapped_platform_witness:
  "platformKey example_win32 = ''win32-x64'' \<and> targetTriple ''win32-x64'' = []
   \<and> map_of PLATFORMS ''win32-x64'' = None
   \<and> run example_win32 example_empty_staging
       = (1, example_empty_staging\<lparr>console := [Err_UnsupportedPlatform ''win32-x64'']\<rparr>)"
proof -
  have key: "platformKey example_win32 = ''win32-x64''"
    by (simp add: example_win32_def example_env_def platformKey_def)
  have T: "targetTriple ''win32-x64'' = []"
    by (simp add: targetTriple_def)
  from unmapped_platform [of "''win32-x64''" example_win32 example_empty_staging] key T
  show ?thesis by (simp add: example_empty_staging_def)
qed

text \<open>
  Claim C5 on the code. A successful response with an empty body is written to disk as an
  empty archive and handed to \<^verbatim>\<open>tar\<close>: where \<^verbatim>\<open>tar\<close> accepts it, the download succeeds;
  where \<^verbatim>\<open>tar\<close> fails, the error is that of the extraction and the empty file stays.
\<close>

theorem empty_body_not_detected:
  "fst (downloadAndExtract (example_empty_body (Some 0)) example_url [''extract''] example_empty_staging) = None
   \<and> fst (downloadAndExtract (example_empty_body (Some 2)) example_url [''extract''] example_empty_staging)
       = Some (Thrown (TarExtractionFailed example_url))
   \<and> lookup (files (snd (downloadAndExtract (example_empty_body (Some 2)) example_url [''extract'']
         example_empty_staging))) (tempArchivePath ''missing.tar.xz'') = Some (File 420 [])"
  by code_simp

text \<open>
  Claim C9 on the code. When the extraction fails, and when the disk is full while the
  archive is written, the program ends with exit status 1 and the archive (whole in the
  first case, partial in the second) is still at its temporary path.
\<close>

theorem archive_left_after_failure:
  "fst (run example_tar_fails example_start) = 1
   \<and> last (console (snd (run example_tar_fails example_start)))
       = Err_InstallationFailed (TarExtractionFailed
           ''https://static.rust-lang.org/dist/rust-1.92.0-x86_64-unknown-linux-gnu.tar.xz'')
   \<and> lookup (files (snd (run example_tar_fails example_start)))
        (tempArchivePath ''rust-1.92.0-x86_64-unknown-linux-gnu.tar.xz'') = Some (File 420 ''abc'')
   \<and> fst (run example_disk_full example_start) = 1
   \<and> lookup (files (snd (run example_disk_full example_start)))
        (tempArchivePath ''rust-1.92.0-x86_64-unknown-linux-gnu.tar.xz'') = Some (File 420 ''ab'')"
  by code_simp

section \<open>The archives that are fetched\<close>

































section \<open>What a successful download leaves\<close>









section \<open>What a successful run installs\<close>

















end
